theory Spec2Isabelle
  imports Complex_Main
begin

section \<open>Data model\<close>

text \<open>
  The library computes on JavaScript numbers. They are modelled as \<^typ>\<open>real\<close>: every
  statement below is about exact arithmetic, and \<open>Math.sqrt\<close>, \<open>Math.sin\<close>,
  \<open>Math.cos\<close>, \<open>Math.abs\<close> are \<^const>\<open>sqrt\<close>, \<^const>\<open>sin\<close>, \<^const>\<open>cos\<close>
  and \<^const>\<open>abs\<close>. Two places where the reals and the doubles part ways are kept out
  of every statement over the reals: a division by zero (HOL gives 0, JavaScript an
  infinity or NaN) and the square root of a negative number (HOL gives \<open>- sqrt (- x)\<close>,
  JavaScript NaN).

  \<open>normalize\<close> and the norm it divides by are read on the type \<open>number\<close> instead, which
  has the range of a double: a result too large becomes an infinity, a result too small
  becomes 0, and NaN and the infinities propagate as they do in JavaScript. Inside the
  range a result is kept exact, so rounding to 53 bits and the sign of a zero are the
  two things this type leaves out.

  A class is a record of its fields. The fields \<open>w, x, y, z\<close> of \<open>Quaternion\<close> are
  written \<open>qw, qx, qy, qz\<close> and the fields \<open>x, y, z\<close> of \<open>Vector3\<close> are written
  \<open>vx, vy, vz\<close>, so that one-letter names stay free for variables. A method that
  assigns to \<open>this\<close> takes the receiver and returns the updated receiver. A \<open>throw\<close>
  is the left summand of a sum type.
\<close>

record Quaternion =
  qw :: real
  qx :: real
  qy :: real
  qz :: real

record Vector3 =
  vx :: real
  vy :: real
  vz :: real

record Matrix4 =
  m11 :: real
  m12 :: real
  m13 :: real
  m14 :: real
  m21 :: real
  m22 :: real
  m23 :: real
  m24 :: real
  m31 :: real
  m32 :: real
  m33 :: real
  m34 :: real
  tx :: real
  ty :: real
  tz :: real
  tw :: real

text \<open>
  The three \<open>throw Error(...)\<close> sites of the two classes, and the \<open>TypeError\<close> of
  \<open>Array.prototype.reduce\<close> on an empty array without an initial value.
\<close>

datatype error =
    InvalidArgumentCount
  | NonUnitAxis
  | ReduceOfEmptyArray

text \<open>\<open>new Quaternion(w, x, y, z)\<close>; every parameter defaults to 0.\<close>

definition mkQuaternion :: "real \<Rightarrow> real \<Rightarrow> real \<Rightarrow> real \<Rightarrow> Quaternion" where
  "mkQuaternion a b c d = \<lparr>qw = a, qx = b, qy = c, qz = d\<rparr>"

text \<open>\<open>Quaternion.QuaternionIdentity\<close>\<close>

definition QuaternionIdentity :: Quaternion where
  "QuaternionIdentity = mkQuaternion 1 0 0 0"

text \<open>\<open>new Matrix4()\<close>: the defaults of the sixteen constructor parameters.\<close>

definition newMatrix4 :: Matrix4 where
  "newMatrix4 =
     \<lparr>m11 = 1, m12 = 0, m13 = 0, m14 = 0,
      m21 = 0, m22 = 1, m23 = 0, m24 = 0,
      m31 = 0, m32 = 0, m33 = 1, m34 = 0,
      tx = 0, ty = 0, tz = 0, tw = 1\<rparr>"

text \<open>
  \<open>args.reduce(f)\<close> with no initial value: the first element starts the accumulator and
  the others are folded in from left to right; an empty array raises.
\<close>

definition reduce :: "('a \<Rightarrow> 'a \<Rightarrow> 'a) \<Rightarrow> 'a list \<Rightarrow> error + 'a" where
  "reduce f args =
     (case args of [] \<Rightarrow> Inl ReduceOfEmptyArray | a # rest \<Rightarrow> Inr (foldl f a rest))"

section \<open>Quaternion\<close>

definition negate :: "Quaternion \<Rightarrow> Quaternion" where
  "negate a = mkQuaternion (- qw a) (- qx a) (- qy a) (- qz a)"

definition getNorm :: "Quaternion \<Rightarrow> real" where
  "getNorm a = sqrt (qw a * qw a + qx a * qx a + qy a * qy a + qz a * qz a)"

definition getConjugate :: "Quaternion \<Rightarrow> Quaternion" where
  "getConjugate a = mkQuaternion (qw a) (- qx a) (- qy a) (- qz a)"

definition dotProduct :: "Quaternion \<Rightarrow> Quaternion \<Rightarrow> real" where
  "dotProduct a b = qw a * qw b + qx a * qx b + qy a * qy b + qz a * qz b"

text \<open>The callback that \<open>crossProduct\<close> hands to \<open>reduce\<close>.\<close>

definition crossProductStep :: "Quaternion \<Rightarrow> Quaternion \<Rightarrow> Quaternion" where
  "crossProductStep a b =
     (let w = qw a * qw b - qx a * qx b - qy a * qy b - qz a * qz b;
          x = qw a * qx b + qx a * qw b + qz a * qy b - qy a * qz b;
          y = qw a * qy b + qy a * qw b + qx a * qz b - qz a * qx b;
          z = qw a * qz b + qz a * qw b + qy a * qx b - qx a * qy b
      in mkQuaternion w x y z)"

definition crossProduct :: "Quaternion list \<Rightarrow> error + Quaternion" where
  "crossProduct args =
     (if length args < 2 then Inl InvalidArgumentCount
      else reduce crossProductStep args)"

text \<open>
  The Hamilton product \<open>p * q\<close> of the mathematical convention, written from its
  textbook definition (\<open>i\<^sup>2 = j\<^sup>2 = k\<^sup>2 = ijk = -1\<close>) and not from the source; it is
  the reference that \<open>crossProduct\<close> is compared with.
\<close>

definition hamilton :: "Quaternion \<Rightarrow> Quaternion \<Rightarrow> Quaternion" where
  "hamilton p q =
     \<lparr>qw = qw p * qw q - qx p * qx q - qy p * qy q - qz p * qz q,
      qx = qw p * qx q + qx p * qw q + qy p * qz q - qz p * qy q,
      qy = qw p * qy q - qx p * qz q + qy p * qw q + qz p * qx q,
      qz = qw p * qz q + qx p * qy q - qy p * qx q + qz p * qw q\<rparr>"

text \<open>
  Modelled from the spec: \<open>MathUtil.safeAcos\<close> is imported by \<open>Quaternion.ts\<close> and is not
  among the sources. The spec describes it as a safe-acos utility that clamps the
  arccos input to \<open>[-1, 1]\<close> before computing.
\<close>

definition safeAcos :: "real \<Rightarrow> real" where
  "safeAcos v = (if v \<le> - 1 then pi else if 1 \<le> v then 0 else arccos v)"

text \<open>
  \<open>Math.atan2(y, x)\<close>, the angle of the point \<open>(x, y)\<close> in \<open>(-\<pi>, \<pi>]\<close>.
\<close>

definition atan2 :: "real \<Rightarrow> real \<Rightarrow> real" where
  "atan2 v u =
     (if 0 < u then arctan (v / u)
      else if u < 0 then (if 0 \<le> v then arctan (v / u) + pi else arctan (v / u) - pi)
      else if 0 < v then pi / 2
      else if v < 0 then - (pi / 2)
      else 0)"

text \<open>
  Modelled from the spec: \<open>Vector3.getNorm\<close> is imported by both classes and is not among
  the sources. The spec describes \<open>Vector3\<close> as a plain 3-component vector type; its
  norm is the Euclidean length, as \<open>Quaternion.getNorm\<close> is for four components.
\<close>

definition Vector3_getNorm :: "Vector3 \<Rightarrow> real" where
  "Vector3_getNorm v = sqrt (vx v * vx v + vy v * vy v + vz v * vz v)"

definition getRotationAngle :: "Quaternion \<Rightarrow> real" where
  "getRotationAngle this = 2 * safeAcos (qw this)"

definition pow :: "Quaternion \<Rightarrow> real \<Rightarrow> Quaternion" where
  "pow a exponent =
     (if \<bar>qw a\<bar> > 0.999 then a
      else
        let alpha = safeAcos (qw a);
            newAlpha = alpha * exponent;
            mult = sin newAlpha / sin alpha
        in mkQuaternion (cos alpha) (qx a * mult) (qy a * mult) (qz a * mult))"

text \<open>
  \<open>slerp\<close> reassigns its parameter \<open>b\<close> and the local \<open>cosOmega\<close> in the first \<open>if\<close>;
  the pair \<open>(b', cosOmega')\<close> is their value after it.
\<close>

definition slerp :: "Quaternion \<Rightarrow> Quaternion \<Rightarrow> real \<Rightarrow> Quaternion" where
  "slerp a b t =
     (let cosOmega = dotProduct a b;
          (b', cosOmega') =
             (if cosOmega < 0 then (negate b, - cosOmega) else (b, cosOmega));
          (k0, k1) =
             (if cosOmega' > 0.9999 then (1 - t, t)
              else
                let sinOmega = sqrt (1 - cosOmega' * cosOmega');
                    omega = atan2 sinOmega cosOmega'
                in (sin ((1 - t) * omega) / sinOmega, sin (t * omega) / sinOmega));
          w = qw a * k0 + qw b' * k1;
          x = qx a * k0 + qx b' * k1;
          y = qy a * k0 + qy b' * k1;
          z = qz a * k1 + qz b' * k1
      in mkQuaternion w x y z)"

text \<open>
  \<open>fromRotationMatrix\<close>: the three \<open>if\<close>s update the pair
  \<open>(fourBiggestSquaredMinus1, biggestIndex)\<close> in turn; the \<open>switch\<close> has no default, so
  any other index would leave the four locals at their initial 0.
\<close>

definition fromRotationMatrix :: "Matrix4 \<Rightarrow> Quaternion" where
  "fromRotationMatrix m =
     (let fourWSquaredMinus1 = m11 m + m22 m + m33 m;
          fourXSquaredMinus1 = m11 m - m22 m - m33 m;
          fourYSquaredMinus1 = m22 m - m11 m - m33 m;
          fourZSquaredMinus1 = m33 m - m11 m - m22 m;
          (big0, idx0) = (fourWSquaredMinus1, 0::nat);
          (big1, idx1) =
             (if fourXSquaredMinus1 > big0 then (fourXSquaredMinus1, 1) else (big0, idx0));
          (big2, idx2) =
             (if fourYSquaredMinus1 > big1 then (fourYSquaredMinus1, 2) else (big1, idx1));
          (fourBiggestSquaredMinus1, biggestIndex) =
             (if fourZSquaredMinus1 > big2 then (fourZSquaredMinus1, 3) else (big2, idx2));
          biggestVal = sqrt (fourBiggestSquaredMinus1 + 1) * 0.5;
          mult = 0.25 / biggestVal
      in
        if biggestIndex = 0 then
          mkQuaternion biggestVal
            ((m23 m - m32 m) * mult) ((m31 m - m13 m) * mult) ((m12 m - m21 m) * mult)
        else if biggestIndex = 1 then
          mkQuaternion biggestVal
            ((m23 m - m32 m) * mult) ((m12 m + m21 m) * mult) ((m31 m + m13 m) * mult)
        else if biggestIndex = 2 then
          mkQuaternion biggestVal
            ((m31 m - m13 m) * mult) ((m12 m + m21 m) * mult) ((m23 m + m32 m) * mult)
        else if biggestIndex = 3 then
          mkQuaternion biggestVal
            ((m12 m - m21 m) * mult) ((m31 m + m13 m) * mult) ((m23 m + m13 m) * mult)
        else mkQuaternion 0 0 0 0)"

definition setToRotateAboutAxis :: "Quaternion \<Rightarrow> Vector3 \<Rightarrow> real \<Rightarrow> error + Quaternion" where
  "setToRotateAboutAxis this axis theta =
     (if Vector3_getNorm axis - 1 \<ge> 0.01 then Inl NonUnitAxis
      else Inr (this\<lparr>qw := cos (theta / 2),
                     qx := sin (theta / 2) * vx axis,
                     qy := sin (theta / 2) * vy axis,
                     qz := sin (theta / 2) * vz axis\<rparr>))"

section \<open>Matrix4\<close>

text \<open>The callback that \<open>Matrix4.matrix4Multiply\<close> hands to \<open>reduce\<close>.\<close>

definition matrix4MultiplyStep :: "Matrix4 \<Rightarrow> Matrix4 \<Rightarrow> Matrix4" where
  "matrix4MultiplyStep a b =
     \<lparr>m11 = m11 a * m11 b + m12 a * m21 b + m13 a * m31 b + m14 a * tx b,
      m12 = m11 a * m12 b + m12 a * m22 b + m13 a * m32 b + m14 a * ty b,
      m13 = m11 a * m13 b + m12 a * m23 b + m13 a * m33 b + m14 a * tz b,
      m14 = m11 a * m14 b + m12 a * m24 b + m13 a * m34 b + m14 a * tw b,
      m21 = m21 a * m11 b + m22 a * m21 b + m23 a * m31 b + m24 a * tx b,
      m22 = m21 a * m12 b + m22 a * m22 b + m23 a * m32 b + m24 a * ty b,
      m23 = m21 a * m13 b + m22 a * m23 b + m23 a * m33 b + m24 a * tz b,
      m24 = m21 a * m14 b + m22 a * m24 b + m23 a * m34 b + m24 a * tw b,
      m31 = m31 a * m11 b + m32 a * m21 b + m33 a * m31 b + m34 a * tx b,
      m32 = m31 a * m12 b + m32 a * m22 b + m33 a * m32 b + m34 a * ty b,
      m33 = m31 a * m13 b + m32 a * m23 b + m33 a * m33 b + m34 a * tz b,
      m34 = m31 a * m14 b + m32 a * m24 b + m33 a * m34 b + m34 a * tw b,
      tx = tx a * m11 b + ty a * m21 b + tz a * m31 b + tw a * tx b,
      ty = tx a * m12 b + ty a * m22 b + tz a * m32 b + tw a * ty b,
      tz = tx a * m13 b + ty a * m23 b + tz a * m33 b + tw a * tz b,
      tw = tx a * m14 b + ty a * m24 b + tz a * m34 b + tw a * tw b\<rparr>"

text \<open>The static \<open>Matrix4.matrix4Multiply(...args)\<close>.\<close>

definition matrix4Multiply :: "Matrix4 list \<Rightarrow> error + Matrix4" where
  "matrix4Multiply args =
     (if length args < 2 then Inl InvalidArgumentCount
      else reduce matrix4MultiplyStep args)"

definition Matrix4_scalarMultiply :: "real \<Rightarrow> Matrix4 \<Rightarrow> Matrix4" where
  "Matrix4_scalarMultiply scalar m =
     \<lparr>m11 = m11 m * scalar, m12 = m12 m * scalar, m13 = m13 m * scalar, m14 = m14 m * scalar,
      m21 = m21 m * scalar, m22 = m22 m * scalar, m23 = m23 m * scalar, m24 = m24 m * scalar,
      m31 = m31 m * scalar, m32 = m32 m * scalar, m33 = m33 m * scalar, m34 = m34 m * scalar,
      tx = tx m * scalar, ty = ty m * scalar, tz = tz m * scalar, tw = tw m * scalar\<rparr>"

definition fromWorldToObjectQuaternion :: "Quaternion \<Rightarrow> Matrix4" where
  "fromWorldToObjectQuaternion q =
     \<lparr>m11 = 1 - 2 * qy q * qy q - 2 * qz q * qz q,
      m12 = 2 * qx q * qy q + 2 * qw q * qz q,
      m13 = 2 * qx q * qz q - 2 * qw q * qy q,
      m14 = 0,
      m21 = 2 * qx q * qy q - 2 * qw q * qz q,
      m22 = 1 - 2 * qx q * qx q - 2 * qz q * qz q,
      m23 = 2 * qy q * qz q + 2 * qw q * qx q,
      m24 = 0,
      m31 = 2 * qx q * qz q + 2 * qw q * qy q,
      m32 = 2 * qy q * qz q - 2 * qw q * qx q,
      m33 = 1 - 2 * qx q * qx q - 2 * qy q * qy q,
      m34 = 0,
      tx = 0, ty = 0, tz = 0, tw = 1\<rparr>"

definition fromObjectToWorldQuaternion :: "Quaternion \<Rightarrow> Matrix4" where
  "fromObjectToWorldQuaternion q =
     \<lparr>m11 = 1 - 2 * qy q * qy q - 2 * qz q * qz q,
      m12 = 2 * qx q * qy q - 2 * qw q * qz q,
      m13 = 2 * qx q * qz q + 2 * qw q * qy q,
      m14 = 0,
      m21 = 2 * qx q * qy q + 2 * qw q * qz q,
      m22 = 1 - 2 * qx q * qx q - 2 * qz q * qz q,
      m23 = 2 * qy q * qz q - 2 * qw q * qx q,
      m24 = 0,
      m31 = 2 * qx q * qz q - 2 * qw q * qy q,
      m32 = 2 * qy q * qz q + 2 * qw q * qx q,
      m33 = 1 - 2 * qx q * qx q - 2 * qy q * qy q,
      m34 = 0,
      tx = 0, ty = 0, tz = 0, tw = 1\<rparr>"

definition cloneFrom :: "Matrix4 \<Rightarrow> Matrix4 \<Rightarrow> Matrix4" where
  "cloneFrom this target =
     this\<lparr>m11 := m11 target, m12 := m12 target, m13 := m13 target, m14 := m14 target,
          m21 := m21 target, m22 := m22 target, m23 := m23 target, m24 := m24 target,
          m31 := m31 target, m32 := m32 target, m33 := m33 target, m34 := m34 target,
          tx := tx target, ty := ty target, tz := tz target, tw := tw target\<rparr>"

text \<open>The instance method \<open>scalarMultiply(scalar)\<close>.\<close>

definition scalarMultiply :: "Matrix4 \<Rightarrow> real \<Rightarrow> Matrix4" where
  "scalarMultiply this scalar = cloneFrom this (Matrix4_scalarMultiply scalar this)"

text \<open>
  The instance method \<open>matrix4Multiply(...args)\<close>: the static product of the receiver
  followed by the arguments, cloned into the receiver.
\<close>

definition matrix4Multiply_this :: "Matrix4 \<Rightarrow> Matrix4 list \<Rightarrow> error + Matrix4" where
  "matrix4Multiply_this this args =
     (case matrix4Multiply (this # args) of
        Inl e \<Rightarrow> Inl e
      | Inr product \<Rightarrow> Inr (cloneFrom this product))"

definition identity :: "Matrix4 \<Rightarrow> Matrix4" where
  "identity this =
     this\<lparr>m11 := 1, m12 := 0, m13 := 0, m14 := 0,
          m21 := 0, m22 := 1, m23 := 0, m24 := 0,
          m31 := 0, m32 := 0, m33 := 1, m34 := 0,
          tx := 0, ty := 0, tz := 0, tw := 1\<rparr>"

text \<open>
  The local \<open>resultMat4\<close> of \<open>setShear\<close> when it is handed to \<open>matrix4Multiply\<close>. The
  \<open>switch\<close> has no default. The chained assignment
  \<open>resultMat4.tx = resultMat4.ty = resultMat4.tx = 0\<close> assigns from the right: \<open>tx\<close>,
  then \<open>ty\<close>, then \<open>tx\<close> again; likewise \<open>m34\<close>, \<open>m24\<close>, \<open>m14\<close>.
\<close>

definition setShear_resultMat4 :: "string \<Rightarrow> real \<Rightarrow> real \<Rightarrow> Matrix4" where
  "setShear_resultMat4 axis s t =
     (let resultMat4 = newMatrix4;
          resultMat4 =
            (if axis = ''x'' \<or> axis = ''X'' then
               resultMat4\<lparr>m11 := 1, m12 := 0, m13 := 0,
                          m21 := 0, m22 := 1, m23 := 0,
                          m31 := s, m32 := t, m33 := 1\<rparr>
             else if axis = ''y'' \<or> axis = ''Y'' then
               resultMat4\<lparr>m11 := 1, m12 := 0, m13 := 0,
                          m21 := s, m22 := 1, m23 := t,
                          m31 := 0, m32 := 0, m33 := 1\<rparr>
             else if axis = ''z'' \<or> axis = ''Z'' then
               resultMat4\<lparr>m11 := 1, m12 := s, m13 := t,
                          m21 := 0, m22 := 1, m23 := 0,
                          m31 := 0, m32 := 0, m33 := 1\<rparr>
             else resultMat4);
          resultMat4 = resultMat4\<lparr>tx := 0, ty := 0, tx := 0\<rparr>;
          resultMat4 = resultMat4\<lparr>m34 := 0, m24 := 0, m14 := 0\<rparr>;
          resultMat4 = resultMat4\<lparr>tw := 1\<rparr>
      in resultMat4)"

definition setShear :: "Matrix4 \<Rightarrow> string \<Rightarrow> real \<Rightarrow> real \<Rightarrow> error + Matrix4" where
  "setShear this axis s t = matrix4Multiply_this this [setShear_resultMat4 axis s t]"

text \<open>
  The local \<open>resultMat4\<close> of \<open>setOrtho\<close> when it is handed to \<open>matrix4Multiply\<close>
  (the parameters \<open>top\<close> and \<open>bottom\<close> carry a prime: \<open>top\<close> is taken in HOL).
\<close>

definition setOrtho_resultMat4 ::
  "real \<Rightarrow> real \<Rightarrow> real \<Rightarrow> real \<Rightarrow> real \<Rightarrow> real \<Rightarrow> Matrix4" where
  "setOrtho_resultMat4 left right bottom' top' near far =
     newMatrix4
       \<lparr>m11 := 2 / (right - left), m12 := 0, m13 := 0, m14 := 0,
        m21 := 0, m22 := 2 / (top' - bottom'), m23 := 0, m24 := 0,
        m31 := 0, m32 := 0, m33 := - 2 / (far - near), m34 := 0,
        tx := - (right + left) / (right - left),
        ty := - (top' + bottom') / (top' - bottom'),
        tz := - (far + near) / (far - near),
        tw := 1\<rparr>"

definition setOrtho ::
  "Matrix4 \<Rightarrow> real \<Rightarrow> real \<Rightarrow> real \<Rightarrow> real \<Rightarrow> real \<Rightarrow> real \<Rightarrow> error + Matrix4" where
  "setOrtho this left right bottom' top' near far =
     matrix4Multiply_this this [setOrtho_resultMat4 left right bottom' top' near far]"

text \<open>
  The local \<open>result\<close> of \<open>inverse\<close> after its sixteen assignments: the cofactors of the
  receiver, already transposed (the adjugate).
\<close>

definition inverse_result :: "Matrix4 \<Rightarrow> Matrix4" where
  "inverse_result this =
     newMatrix4
       \<lparr>m11 := m22 this * m33 this * tw this - m22 this * m34 this * tz this - m32 this * m23 this * tw this + m32 this * m24 this * tz this + ty this * m23 this * m34 this - ty this * m24 this * m33 this,
        m21 := - m21 this * m33 this * tw this + m21 this * m34 this * tz this + m31 this * m23 this * tw this - m31 this * m24 this * tz this - tx this * m23 this * m34 this + tx this * m24 this * m33 this,
        m31 := m21 this * m32 this * tw this - m21 this * m34 this * ty this - m31 this * m22 this * tw this + m31 this * m24 this * ty this + tx this * m22 this * m34 this - tx this * m24 this * m32 this,
        tx := - m21 this * m32 this * tz this + m21 this * m33 this * ty this + m31 this * m22 this * tz this - m31 this * m23 this * ty this - tx this * m22 this * m33 this + tx this * m23 this * m32 this,
        m12 := - m12 this * m33 this * tw this + m12 this * m34 this * tz this + m32 this * m13 this * tw this - m32 this * m14 this * tz this - ty this * m13 this * m34 this + ty this * m14 this * m33 this,
        m22 := m11 this * m33 this * tw this - m11 this * m34 this * tz this - m31 this * m13 this * tw this + m31 this * m14 this * tz this + tx this * m13 this * m34 this - tx this * m14 this * m33 this,
        m32 := - m11 this * m32 this * tw this + m11 this * m34 this * ty this + m31 this * m12 this * tw this - m31 this * m14 this * ty this - tx this * m12 this * m34 this + tx this * m14 this * m32 this,
        ty := m11 this * m32 this * tz this - m11 this * m33 this * ty this - m31 this * m12 this * tz this + m31 this * m13 this * ty this + tx this * m12 this * m33 this - tx this * m13 this * m32 this,
        m13 := m12 this * m23 this * tw this - m12 this * m24 this * tz this - m22 this * m13 this * tw this + m22 this * m14 this * tz this + ty this * m13 this * m24 this - ty this * m14 this * m23 this,
        m23 := - m11 this * m23 this * tw this + m11 this * m24 this * tz this + m21 this * m13 this * tw this - m21 this * m14 this * tz this - tx this * m13 this * m24 this + tx this * m14 this * m23 this,
        m33 := m11 this * m22 this * tw this - m11 this * m24 this * ty this - m21 this * m12 this * tw this + m21 this * m14 this * ty this + tx this * m12 this * m24 this - tx this * m14 this * m22 this,
        tz := - m11 this * m22 this * tz this + m11 this * m23 this * ty this + m21 this * m12 this * tz this - m21 this * m13 this * ty this - tx this * m12 this * m23 this + tx this * m13 this * m22 this,
        m14 := - m12 this * m23 this * m34 this + m12 this * m24 this * m33 this + m22 this * m13 this * m34 this - m22 this * m14 this * m33 this - m32 this * m13 this * m24 this + m32 this * m14 this * m23 this,
        m24 := m11 this * m23 this * m34 this - m11 this * m24 this * m33 this - m21 this * m13 this * m34 this + m21 this * m14 this * m33 this + m31 this * m13 this * m24 this - m31 this * m14 this * m23 this,
        m34 := - m11 this * m22 this * m34 this + m11 this * m24 this * m32 this + m21 this * m12 this * m34 this - m21 this * m14 this * m32 this - m31 this * m12 this * m24 this + m31 this * m14 this * m22 this,
        tw := m11 this * m22 this * m33 this - m11 this * m23 this * m32 this - m21 this * m12 this * m33 this + m21 this * m13 this * m32 this + m31 this * m12 this * m23 this - m31 this * m13 this * m22 this\<rparr>"

text \<open>\<open>inverse\<close> (the name \<open>inverse\<close> is taken in HOL).\<close>

definition inverse_m :: "Matrix4 \<Rightarrow> Matrix4" where
  "inverse_m this =
     (let result = inverse_result this;
          det = m11 this * m11 result + m12 this * m21 result
                + m13 this * m31 result + m14 this * tx result
      in if det = 0 then cloneFrom this result
         else
           let det = 1 / det;
               result = scalarMultiply result det
           in cloneFrom this result)"

text \<open>
  \<open>transpose\<close> (the name \<open>transpose\<close> is taken in HOL): one destructuring assignment,
  whose right-hand side is read in full before any field is written.
\<close>

definition transpose_m :: "Matrix4 \<Rightarrow> Matrix4" where
  "transpose_m this =
     this\<lparr>m11 := m11 this, m12 := m21 this, m13 := m31 this, m14 := tx this,
          m21 := m12 this, m22 := m22 this, m23 := m32 this, m24 := ty this,
          m31 := m13 this, m32 := m23 this, m33 := m33 this, m34 := tz this,
          tx := m14 this, ty := m24 this, tz := m34 this, tw := tw this\<rparr>"

section \<open>Numbers with the range of a double\<close>

text \<open>
  A JavaScript number: a finite value, one of the two infinities, or NaN.
\<close>

datatype number = Fin real | PosInf | NegInf | NaN

text \<open>
  Round-to-nearest sends a real of magnitude \<open>2^1024 - 2^970\<close> or more (the largest double
  plus half a unit in its last place) to an infinity, and one of magnitude \<open>2^(-1075)\<close> or
  less (half the smallest subnormal) to zero.
\<close>

definition overflowBound :: real where
  "overflowBound = 2 ^ 1024 - 2 ^ 970"

definition underflowBound :: real where
  "underflowBound = 1 / 2 ^ 1075"

text \<open>The double that an exact result becomes; exact inside the range.\<close>

definition fl :: "real \<Rightarrow> number" where
  "fl r = (if overflowBound \<le> r then PosInf
           else if r \<le> - overflowBound then NegInf
           else if \<bar>r\<bar> \<le> underflowBound then Fin 0
           else Fin r)"

text \<open>
  The arithmetic of \<open>*\<close>, \<open>+\<close>, \<open>/\<close> and \<open>Math.sqrt\<close> on numbers, and the truth value
  that \<open>if (v)\<close> gives a number: false for 0 and NaN.
\<close>

definition signOf :: "number \<Rightarrow> real" where
  "signOf u = (case u of Fin a \<Rightarrow> sgn a | PosInf \<Rightarrow> 1 | NegInf \<Rightarrow> - 1 | NaN \<Rightarrow> 0)"

definition infinity :: "real \<Rightarrow> number" where
  "infinity s = (if 0 < s then PosInf else if s < 0 then NegInf else NaN)"

fun num_mul :: "number \<Rightarrow> number \<Rightarrow> number" where
  "num_mul NaN v = NaN"
| "num_mul u NaN = NaN"
| "num_mul (Fin a) (Fin b) = fl (a * b)"
| "num_mul u v = infinity (signOf u * signOf v)"

fun num_add :: "number \<Rightarrow> number \<Rightarrow> number" where
  "num_add NaN v = NaN"
| "num_add u NaN = NaN"
| "num_add (Fin a) (Fin b) = fl (a + b)"
| "num_add PosInf NegInf = NaN"
| "num_add NegInf PosInf = NaN"
| "num_add PosInf v = PosInf"
| "num_add u PosInf = PosInf"
| "num_add NegInf v = NegInf"
| "num_add u NegInf = NegInf"

fun num_div :: "number \<Rightarrow> number \<Rightarrow> number" where
  "num_div NaN v = NaN"
| "num_div u NaN = NaN"
| "num_div (Fin a) (Fin b) = (if b = 0 then infinity a else fl (a / b))"
| "num_div (Fin a) v = Fin 0"
| "num_div u (Fin b) = infinity (if b < 0 then - signOf u else signOf u)"
| "num_div u v = NaN"

fun num_sqrt :: "number \<Rightarrow> number" where
  "num_sqrt (Fin a) = (if a < 0 then NaN else Fin (sqrt a))"
| "num_sqrt PosInf = PosInf"
| "num_sqrt NegInf = NaN"
| "num_sqrt NaN = NaN"

fun truthy :: "number \<Rightarrow> bool" where
  "truthy (Fin a) \<longleftrightarrow> a \<noteq> 0"
| "truthy NaN \<longleftrightarrow> False"
| "truthy u \<longleftrightarrow> True"

section \<open>Quaternion.normalize on doubles\<close>

text \<open>A \<open>Quaternion\<close> whose four fields are numbers.\<close>

record QuaternionD =
  dw :: number
  dx :: number
  dy :: number
  dz :: number

text \<open>\<open>Quaternion.getNorm\<close> on numbers; \<open>+\<close> associates to the left.\<close>

definition getNormD :: "QuaternionD \<Rightarrow> number" where
  "getNormD a =
     num_sqrt (num_add (num_add (num_add (num_mul (dw a) (dw a)) (num_mul (dx a) (dx a)))
                                (num_mul (dy a) (dy a)))
                       (num_mul (dz a) (dz a)))"

text \<open>
  \<open>normalize\<close> (the name \<open>normalize\<close> is taken in HOL). The norm is read once, before
  the four fields are written.
\<close>

definition normalize_q :: "QuaternionD \<Rightarrow> QuaternionD" where
  "normalize_q this =
     (let norm = getNormD this
      in if truthy norm then
           this\<lparr>dw := num_div (dw this) norm, dx := num_div (dx this) norm,
                dy := num_div (dy this) norm, dz := num_div (dz this) norm\<rparr>
         else this\<lparr>dw := Fin 1, dx := Fin 0, dy := Fin 0, dz := Fin 0\<rparr>)"


section \<open>Reference notions\<close>

text \<open>
  A pure rotation matrix in the words of the spec: the rows of the upper 3x3 block are
  unit vectors, orthogonal in pairs; the fourth column and the translation row are
  \<open>(0, 0, 0, 1)\<close>.
\<close>

definition isPureRotation :: "Matrix4 \<Rightarrow> bool" where
  "isPureRotation m \<longleftrightarrow>
     m11 m * m11 m + m12 m * m12 m + m13 m * m13 m = 1 \<and>
     m21 m * m21 m + m22 m * m22 m + m23 m * m23 m = 1 \<and>
     m31 m * m31 m + m32 m * m32 m + m33 m * m33 m = 1 \<and>
     m11 m * m21 m + m12 m * m22 m + m13 m * m23 m = 0 \<and>
     m11 m * m31 m + m12 m * m32 m + m13 m * m33 m = 0 \<and>
     m21 m * m31 m + m22 m * m32 m + m23 m * m33 m = 0 \<and>
     m14 m = 0 \<and> m24 m = 0 \<and> m34 m = 0 \<and>
     tx m = 0 \<and> ty m = 0 \<and> tz m = 0 \<and> tw m = 1"

text \<open>The determinant of the upper 3x3 block, expanded along its first row.\<close>

definition det3 :: "Matrix4 \<Rightarrow> real" where
  "det3 m = m11 m * (m22 m * m33 m - m32 m * m23 m)
          + m12 m * (m31 m * m23 m - m21 m * m33 m)
          + m13 m * (m21 m * m32 m - m31 m * m22 m)"

text \<open>
  The elementary matrix that \<open>setRotateFromXYZAxis('z', \<pi>/2)\<close> builds (\<open>cos = 0\<close>,
  \<open>sin = 1\<close>): a quarter turn about the z axis.
\<close>

definition quarterTurnZ :: Matrix4 where
  "quarterTurnZ =
     \<lparr>m11 = 0, m12 = 1, m13 = 0, m14 = 0,
      m21 = - 1, m22 = 0, m23 = 0, m24 = 0,
      m31 = 0, m32 = 0, m33 = 1, m34 = 0,
      tx = 0, ty = 0, tz = 0, tw = 1\<rparr>"

text \<open>
  The textbook product of 4x4 matrices, \<open>(AB)(i, j) = \<Sum>k. A(i, k) * B(k, j)\<close>, written on the rows
  of a \<open>Matrix4\<close> in the order of its iterator and not from the source; it is the
  reference that \<open>matrix4Multiply\<close> is compared with.
\<close>

definition rows :: "Matrix4 \<Rightarrow> real list list" where
  "rows m =
     [[m11 m, m12 m, m13 m, m14 m],
      [m21 m, m22 m, m23 m, m24 m],
      [m31 m, m32 m, m33 m, m34 m],
      [tx m, ty m, tz m, tw m]]"

definition entry :: "Matrix4 \<Rightarrow> nat \<Rightarrow> nat \<Rightarrow> real" where
  "entry m i j = rows m ! i ! j"

definition ofEntries :: "(nat \<Rightarrow> nat \<Rightarrow> real) \<Rightarrow> Matrix4" where
  "ofEntries f =
     \<lparr>m11 = f 0 0, m12 = f 0 1, m13 = f 0 2, m14 = f 0 3,
      m21 = f 1 0, m22 = f 1 1, m23 = f 1 2, m24 = f 1 3,
      m31 = f 2 0, m32 = f 2 1, m33 = f 2 2, m34 = f 2 3,
      tx = f 3 0, ty = f 3 1, tz = f 3 2, tw = f 3 3\<rparr>"

definition matrixProduct :: "Matrix4 \<Rightarrow> Matrix4 \<Rightarrow> Matrix4" where
  "matrixProduct a b = ofEntries (\<lambda>i j. \<Sum>k<4. entry a i k * entry b k j)"




section \<open>Products: operand order and operand count\<close>

lemma reduce_two_or_more:
  "2 \<le> length args \<Longrightarrow> reduce f args = Inr (foldl f (hd args) (tl args))"
  by (cases args) (simp_all add: reduce_def)

text \<open>
  C5. For all quaternions \<open>a\<close> and \<open>b\<close>, \<open>crossProduct(a, b)\<close> returns the standard
  Hamilton product \<open>b * a\<close>, component by component: the operands are in the reverse of
  the mathematical order.
\<close>

theorem crossProduct_is_reversed_hamilton:
  "crossProduct [a, b] = Inr (hamilton b a)"
  by (simp add: crossProduct_def reduce_def crossProductStep_def hamilton_def
      mkQuaternion_def Let_def algebra_simps)

lemma sum_below_four: "(\<Sum>k<4. f k) = f 0 + f 1 + f 2 + f (3::nat)"
  by (simp add: eval_nat_numeral)

lemma crossProductStep_hamilton: "crossProductStep a b = hamilton b a"
  by (simp add: crossProductStep_def hamilton_def mkQuaternion_def Let_def algebra_simps)

lemma matrix4MultiplyStep_product: "matrix4MultiplyStep a b = matrixProduct a b"
  by (simp add: matrix4MultiplyStep_def matrixProduct_def ofEntries_def entry_def rows_def
      sum_below_four)

text \<open>
  C9. \<open>Quaternion.crossProduct\<close> and \<open>Matrix4.matrix4Multiply\<close> throw exactly when they
  get fewer than two operands; with two or more they return the product of the
  operands reduced from left to right: the reversed Hamilton product for quaternions,
  the textbook matrix product for matrices.
\<close>

theorem multiply_throws_iff_fewer_than_two:
  "(isl (crossProduct qs) \<longleftrightarrow> length qs < 2) \<and>
   (isl (matrix4Multiply ms) \<longleftrightarrow> length ms < 2) \<and>
   (2 \<le> length qs \<longrightarrow>
      crossProduct qs = Inr (foldl (\<lambda>a b. hamilton b a) (hd qs) (tl qs))) \<and>
   (2 \<le> length ms \<longrightarrow>
      matrix4Multiply ms = Inr (foldl matrixProduct (hd ms) (tl ms)))"
proof -
  have quaternions: "crossProductStep = (\<lambda>a b. hamilton b a)"
    by (intro ext) (rule crossProductStep_hamilton)
  have matrices: "matrix4MultiplyStep = matrixProduct"
    by (intro ext) (rule matrix4MultiplyStep_product)
  show ?thesis
    by (simp add: crossProduct_def matrix4Multiply_def reduce_two_or_more
        quaternions matrices)
qed

theorem multiply_throws_iff_fewer_than_two_witness:
  "2 \<le> length [mkQuaternion 0 1 0 0, mkQuaternion 0 0 1 0, mkQuaternion 0 0 0 1] \<and>
   crossProduct [mkQuaternion 0 1 0 0, mkQuaternion 0 0 1 0, mkQuaternion 0 0 0 1]
     = Inr (mkQuaternion 1 0 0 0) \<and>
   2 \<le> length [newMatrix4\<lparr>tx := 1\<rparr>, quarterTurnZ, newMatrix4\<lparr>tx := 1\<rparr>] \<and>
   matrix4Multiply [newMatrix4\<lparr>tx := 1\<rparr>, quarterTurnZ, newMatrix4\<lparr>tx := 1\<rparr>]
     = Inr (quarterTurnZ\<lparr>tx := 1, ty := 1\<rparr>) \<and>
   length [QuaternionIdentity] < 2 \<and> isl (crossProduct [QuaternionIdentity]) \<and>
   length ([] :: Matrix4 list) < 2 \<and> isl (matrix4Multiply [])"
proof -
  have "crossProduct [mkQuaternion 0 1 0 0, mkQuaternion 0 0 1 0, mkQuaternion 0 0 0 1]
        = Inr (mkQuaternion 1 0 0 0)"
    and "matrix4Multiply [newMatrix4\<lparr>tx := 1\<rparr>, quarterTurnZ, newMatrix4\<lparr>tx := 1\<rparr>]
        = Inr (quarterTurnZ\<lparr>tx := 1, ty := 1\<rparr>)"
    using multiply_throws_iff_fewer_than_two
      [of "[mkQuaternion 0 1 0 0, mkQuaternion 0 0 1 0, mkQuaternion 0 0 0 1]"
          "[newMatrix4\<lparr>tx := 1\<rparr>, quarterTurnZ, newMatrix4\<lparr>tx := 1\<rparr>]"]
    by (simp_all add: hamilton_def mkQuaternion_def matrixProduct_def ofEntries_def
        entry_def rows_def sum_below_four newMatrix4_def quarterTurnZ_def)
  moreover have "isl (crossProduct [QuaternionIdentity])" "isl (matrix4Multiply [])"
    using multiply_throws_iff_fewer_than_two [of "[QuaternionIdentity]" "[]"]
    by simp_all
  ultimately show ?thesis
    by simp
qed


section \<open>Normalisation\<close>















text \<open>
  At \<open>(0, 2^(-700), 0, 0)\<close> the square underflows to 0, the computed norm is 0 and the
  result is the identity quaternion, although the quaternion is not zero.
\<close>

lemma normalize_underflow:
  "normalize_q \<lparr>dw = Fin 0, dx = Fin (1 / 2 ^ 700), dy = Fin 0, dz = Fin 0\<rparr>
     = \<lparr>dw = Fin 1, dx = Fin 0, dy = Fin 0, dz = Fin 0\<rparr>"
  by (simp add: normalize_q_def getNormD_def fl_def overflowBound_def underflowBound_def
      infinity_def signOf_def Let_def)

section \<open>Inverse of a rotation\<close>

lemma orthonormal_cofactors:
  fixes a b c d e f g h i :: real
  assumes "a * a + b * b + c * c = 1" "d * d + e * e + f * f = 1" "g * g + h * h + i * i = 1"
    "a * d + b * e + c * f = 0" "a * g + b * h + c * i = 0" "d * g + e * h + f * i = 0"
  defines "D \<equiv> a * (e * i - h * f) + b * (g * f - d * i) + c * (d * h - g * e)"
  shows "e * i - h * f = D * a" "g * f - d * i = D * b" "d * h - g * e = D * c"
    "h * c - b * i = D * d" "a * i - g * c = D * e" "g * b - a * h = D * f"
    "b * f - e * c = D * g" "d * c - a * f = D * h" "a * e - d * b = D * i"
    "D * D = 1"
  using assms(1-6) unfolding D_def by algebra+

text \<open>
  For a pure rotation the sixteen cofactor expressions of \<open>inverse\<close> collapse to the
  determinant times the transposed matrix, and the determinant is 1 or -1.
\<close>

lemma inverse_result_of_rotation:
  assumes "isPureRotation M"
  shows "inverse_result M = Matrix4_scalarMultiply (det3 M) (transpose_m M)"
    and "det3 M * det3 M = 1"
proof -
  from assms have last_column: "m14 M = 0" "m24 M = 0" "m34 M = 0"
    and last_row: "tx M = 0" "ty M = 0" "tz M = 0" "tw M = 1"
    by (simp_all add: isPureRotation_def)
  from assms have rows:
    "m11 M * m11 M + m12 M * m12 M + m13 M * m13 M = 1"
    "m21 M * m21 M + m22 M * m22 M + m23 M * m23 M = 1"
    "m31 M * m31 M + m32 M * m32 M + m33 M * m33 M = 1"
    "m11 M * m21 M + m12 M * m22 M + m13 M * m23 M = 0"
    "m11 M * m31 M + m12 M * m32 M + m13 M * m33 M = 0"
    "m21 M * m31 M + m22 M * m32 M + m23 M * m33 M = 0"
    by (simp_all add: isPureRotation_def)
  note cof = orthonormal_cofactors [OF rows, folded det3_def]
  show "det3 M * det3 M = 1"
    by (rule cof(10))
  have "m11 (inverse_result M) = det3 M * m11 M" "m21 (inverse_result M) = det3 M * m12 M"
    "m31 (inverse_result M) = det3 M * m13 M" "m12 (inverse_result M) = det3 M * m21 M"
    "m22 (inverse_result M) = det3 M * m22 M" "m32 (inverse_result M) = det3 M * m23 M"
    "m13 (inverse_result M) = det3 M * m31 M" "m23 (inverse_result M) = det3 M * m32 M"
    "m33 (inverse_result M) = det3 M * m33 M"
    using cof(1-9) by (simp_all add: inverse_result_def newMatrix4_def last_column last_row)
  moreover have "m14 (inverse_result M) = 0" "m24 (inverse_result M) = 0"
    "m34 (inverse_result M) = 0" "tx (inverse_result M) = 0" "ty (inverse_result M) = 0"
    "tz (inverse_result M) = 0"
    by (simp_all add: inverse_result_def newMatrix4_def last_column last_row)
  moreover have "tw (inverse_result M) = det3 M"
    by (simp add: inverse_result_def newMatrix4_def det3_def algebra_simps)
  ultimately show "inverse_result M = Matrix4_scalarMultiply (det3 M) (transpose_m M)"
    by (simp add: Matrix4_scalarMultiply_def transpose_m_def last_column last_row
        Matrix4.equality mult.commute)
qed

text \<open>
  C6. For every pure rotation matrix \<open>M\<close> (orthonormal upper 3x3 block, fourth column and
  translation row \<open>(0, 0, 0, 1)\<close>), \<open>inverse()\<close> yields the same matrix as \<open>transpose()\<close>;
  over the reals the two are equal in every component.
\<close>

theorem inverse_of_rotation_is_transpose:
  assumes "isPureRotation M"
  shows "inverse_m M = transpose_m M"
proof -
  let ?D = "det3 M"
  note result = inverse_result_of_rotation(1) [OF assms]
  have unit: "?D * ?D = 1"
    by (rule inverse_result_of_rotation(2) [OF assms])
  then have nonzero: "?D \<noteq> 0"
    by auto
  from assms have row1: "m11 M * m11 M + m12 M * m12 M + m13 M * m13 M = 1"
    and column4: "m14 M = 0"
    by (simp_all add: isPureRotation_def)
  have "m11 M * m11 (inverse_result M) + m12 M * m21 (inverse_result M)
        + m13 M * m31 (inverse_result M) + m14 M * tx (inverse_result M)
        = ?D * (m11 M * m11 M + m12 M * m12 M + m13 M * m13 M)"
    by (simp add: result column4 Matrix4_scalarMultiply_def transpose_m_def algebra_simps)
  then have det: "m11 M * m11 (inverse_result M) + m12 M * m21 (inverse_result M)
                  + m13 M * m31 (inverse_result M) + m14 M * tx (inverse_result M) = ?D"
    by (simp only: row1 mult_1_right)
  have "inverse_m M
        = cloneFrom M (scalarMultiply (inverse_result M) (1 / ?D))"
    using nonzero by (simp add: inverse_m_def Let_def det)
  also have "\<dots> = transpose_m M"
    using nonzero
    by (simp add: result scalarMultiply_def cloneFrom_def Matrix4_scalarMultiply_def
        transpose_m_def Matrix4.equality)
  finally show ?thesis .
qed

theorem inverse_of_rotation_is_transpose_witness:
  "isPureRotation quarterTurnZ \<and> inverse_m quarterTurnZ = transpose_m quarterTurnZ \<and>
   inverse_m quarterTurnZ = quarterTurnZ\<lparr>m12 := - 1, m21 := 1\<rparr>"
proof -
  have rot: "isPureRotation quarterTurnZ"
    by (simp add: isPureRotation_def quarterTurnZ_def)
  have "transpose_m quarterTurnZ = quarterTurnZ\<lparr>m12 := - 1, m21 := 1\<rparr>"
    by (simp add: transpose_m_def quarterTurnZ_def)
  with rot inverse_of_rotation_is_transpose [OF rot] show ?thesis
    by simp
qed

section \<open>Elementary matrices composed into the identity\<close>

text \<open>
  C10. For every shear axis among \<open>x, X, y, Y, z, Z\<close> and all \<open>s\<close>, \<open>t\<close>, the elementary
  matrix built inside \<open>setShear\<close> has \<open>tx = ty = tz = 0\<close> and \<open>tw = 1\<close> (\<open>tz\<close> keeps the
  constructor's default), and \<open>setShear\<close> on an identity receiver returns a matrix whose
  translation row is \<open>(0, 0, 0, 1)\<close>.
\<close>

theorem setShear_translation_row:
  assumes "axis \<in> {''x'', ''X'', ''y'', ''Y'', ''z'', ''Z''}"
  shows "tx (setShear_resultMat4 axis s t) = 0 \<and> ty (setShear_resultMat4 axis s t) = 0 \<and>
         tz (setShear_resultMat4 axis s t) = 0 \<and> tw (setShear_resultMat4 axis s t) = 1 \<and>
         (\<exists>r. setShear (identity this) axis s t = Inr r \<and>
              tx r = 0 \<and> ty r = 0 \<and> tz r = 0 \<and> tw r = 1)"
  by (simp add: setShear_def matrix4Multiply_this_def matrix4Multiply_def reduce_def
      matrix4MultiplyStep_def cloneFrom_def identity_def setShear_resultMat4_def
      newMatrix4_def Let_def)

theorem setShear_translation_row_witness:
  "''x'' \<in> {''x'', ''X'', ''y'', ''Y'', ''z'', ''Z''} \<and>
   tx (setShear_resultMat4 ''x'' 2 3) = 0 \<and> ty (setShear_resultMat4 ''x'' 2 3) = 0 \<and>
   tz (setShear_resultMat4 ''x'' 2 3) = 0 \<and> tw (setShear_resultMat4 ''x'' 2 3) = 1 \<and>
   (\<exists>r. setShear (identity newMatrix4) ''x'' 2 3 = Inr r \<and>
        tx r = 0 \<and> ty r = 0 \<and> tz r = 0 \<and> tw r = 1)"
proof -
  have axis: "''x'' \<in> {''x'', ''X'', ''y'', ''Y'', ''z'', ''Z''}"
    by simp
  from setShear_translation_row [OF axis, of 2 3 newMatrix4] axis show ?thesis
    by blast
qed

text \<open>
  C3, as amended. \<open>setOrtho(-1, 1, -1, 1, -1, 1)\<close> on an identity receiver returns the
  identity in fifteen components and \<open>m33 = -1\<close>: the matrix \<open>diag(1, 1, -1, 1)\<close>. The
  entry is \<open>- 2 / (far - near)\<close>, the orthographic projection's flip of the depth axis.
\<close>

theorem setOrtho_unit_cube:
  "setOrtho (identity this) (- 1) 1 (- 1) 1 (- 1) 1 = Inr (newMatrix4\<lparr>m33 := - 1\<rparr>)"
  by (simp add: setOrtho_def setOrtho_resultMat4_def matrix4Multiply_this_def
      matrix4Multiply_def reduce_def matrix4MultiplyStep_def cloneFrom_def identity_def
      newMatrix4_def Matrix4.equality)

text \<open>
  C3, as stated, fails: the receiver is not the identity afterwards, its \<open>m33\<close> is -1.
\<close>

theorem setOrtho_unit_cube_not_identity:
  "setOrtho (identity newMatrix4) (- 1) 1 (- 1) 1 (- 1) 1 \<noteq> Inr (identity newMatrix4)"
  by (simp add: setOrtho_def setOrtho_resultMat4_def matrix4Multiply_this_def
      matrix4Multiply_def reduce_def matrix4MultiplyStep_def cloneFrom_def identity_def
      newMatrix4_def)

section \<open>Where the code leaves its contract\<close>

text \<open>
  As long as \<open>dotProduct a a\<close> exceeds 0.9999 (every unit quaternion), \<open>slerp(a, a, t)\<close>
  takes the linear weights; \<open>w\<close>, \<open>x\<close> and \<open>y\<close> come back, and \<open>z\<close> comes back times \<open>2t\<close>,
  because the last component is weighted with \<open>k1\<close> twice.
\<close>

lemma slerp_same_near_unit:
  assumes "dotProduct a a > 0.9999"
  shows "slerp a a t = mkQuaternion (qw a) (qx a) (qy a) (2 * t * qz a)"
  using assms by (simp add: slerp_def Let_def mkQuaternion_def algebra_simps)

text \<open>
  C1, at the unit quaternion \<open>a = (0, 0, 0, 1)\<close> and \<open>t = 0\<close>: \<open>slerp(a, a, 0)\<close> is the zero
  quaternion, its \<open>z\<close> is 0 where \<open>a.z\<close> is 1.
\<close>

theorem slerp_same_loses_z:
  "getNorm (mkQuaternion 0 0 0 1) = 1 \<and>
   slerp (mkQuaternion 0 0 0 1) (mkQuaternion 0 0 0 1) 0 = mkQuaternion 0 0 0 0 \<and>
   \<bar>qz (slerp (mkQuaternion 0 0 0 1) (mkQuaternion 0 0 0 1) 0) - qz (mkQuaternion 0 0 0 1)\<bar> = 1"
  by (simp add: slerp_def dotProduct_def getNorm_def mkQuaternion_def Let_def)

text \<open>
  On the first branch the extraction does invert \<open>fromWorldToObjectQuaternion\<close>, up to
  the double cover: for a unit quaternion whose \<open>w\<close> is largest in absolute value, the
  result is \<open>q\<close> when \<open>w\<close> is positive and \<open>-q\<close> otherwise. Every divisor is \<open>\<bar>w\<bar>\<close>,
  which is not zero here.
\<close>

lemma fromRotationMatrix_w_branch:
  assumes unit: "qw q * qw q + qx q * qx q + qy q * qy q + qz q * qz q = 1"
    and largest: "qx q * qx q \<le> qw q * qw q" "qy q * qy q \<le> qw q * qw q"
      "qz q * qz q \<le> qw q * qw q"
  shows "fromRotationMatrix (fromWorldToObjectQuaternion q) = (if 0 < qw q then q else negate q)"
proof -
  let ?M = "fromWorldToObjectQuaternion q"
  have fourW: "m11 ?M + m22 ?M + m33 ?M = 4 * (qw q * qw q) - 1"
    using unit by (simp add: fromWorldToObjectQuaternion_def)
  have fourX: "m11 ?M - m22 ?M - m33 ?M = 4 * (qx q * qx q) - 1"
    and fourY: "m22 ?M - m11 ?M - m33 ?M = 4 * (qy q * qy q) - 1"
    and fourZ: "m33 ?M - m11 ?M - m22 ?M = 4 * (qz q * qz q) - 1"
    by (simp_all add: fromWorldToObjectQuaternion_def)
  have nonzero: "qw q \<noteq> 0"
    using unit largest by auto
  have off: "m23 ?M - m32 ?M = 4 * qw q * qx q" "m31 ?M - m13 ?M = 4 * qw q * qy q"
    "m12 ?M - m21 ?M = 4 * qw q * qz q"
    by (simp_all add: fromWorldToObjectQuaternion_def)
  have "fromRotationMatrix ?M
        = mkQuaternion \<bar>qw q\<bar> (4 * qw q * qx q * (0.25 / \<bar>qw q\<bar>))
            (4 * qw q * qy q * (0.25 / \<bar>qw q\<bar>)) (4 * qw q * qz q * (0.25 / \<bar>qw q\<bar>))"
    using largest
    by (simp add: fromRotationMatrix_def Let_def fourW fourX fourY fourZ off real_sqrt_mult)
  also have "\<dots> = (if 0 < qw q then q else negate q)"
    using nonzero by (simp add: mkQuaternion_def negate_def abs_if)
  finally show ?thesis .
qed

text \<open>
  C2, at the unit quaternion \<open>q = (0, 0, 0, 1)\<close>, a half turn about z. Both matrix
  constructors give \<open>diag(-1, -1, 1, 1)\<close>, the z-diagonal branch is the one selected
  (\<open>m33 - m11 - m22 = 3\<close> against \<open>-1\<close> for the three others), and the extracted
  quaternion is \<open>(1, 0, 0, 0)\<close>: one whole unit away from \<open>q\<close> and from \<open>-q\<close>.
\<close>

theorem fromRotationMatrix_z_branch:
  "getNorm (mkQuaternion 0 0 0 1) = 1 \<and>
   fromObjectToWorldQuaternion (mkQuaternion 0 0 0 1) = newMatrix4\<lparr>m11 := - 1, m22 := - 1\<rparr> \<and>
   fromWorldToObjectQuaternion (mkQuaternion 0 0 0 1) = newMatrix4\<lparr>m11 := - 1, m22 := - 1\<rparr> \<and>
   fromRotationMatrix (newMatrix4\<lparr>m11 := - 1, m22 := - 1\<rparr>) = mkQuaternion 1 0 0 0 \<and>
   \<bar>qz (mkQuaternion 1 0 0 0) - qz (mkQuaternion 0 0 0 1)\<bar> = 1 \<and>
   \<bar>qz (mkQuaternion 1 0 0 0) - qz (negate (mkQuaternion 0 0 0 1))\<bar> = 1"
  by (simp add: fromRotationMatrix_def fromObjectToWorldQuaternion_def
      fromWorldToObjectQuaternion_def getNorm_def negate_def mkQuaternion_def
      newMatrix4_def Let_def)

lemma sqrt_64_25: "sqrt (64 / 25) = 8 / 5"
  by (rule real_sqrt_unique) (simp_all add: power2_eq_square)

text \<open>
  The same branch at \<open>q = (0, 0, 3/5, 4/5)\<close>, where \<open>m23 = m32 = 24/25\<close> and \<open>m13 = 0\<close>:
  the \<open>z\<close> of the result is \<open>(m23 + m13) * mult = 3/10\<close>, half of what the symmetric pair
  \<open>m23 + m32\<close> gives, and the largest component lands in \<open>w\<close>.
\<close>

lemma fromRotationMatrix_z_branch_offdiagonal:
  "getNorm (mkQuaternion 0 0 (3 / 5) (4 / 5)) = 1 \<and>
   fromRotationMatrix (fromObjectToWorldQuaternion (mkQuaternion 0 0 (3 / 5) (4 / 5)))
     = mkQuaternion (4 / 5) 0 0 (3 / 10)"
  by (simp add: fromRotationMatrix_def fromObjectToWorldQuaternion_def getNorm_def
      mkQuaternion_def Let_def sqrt_64_25)

text \<open>\<open>pow\<close> never changes \<open>w\<close>: outside the guard it writes \<open>cos alpha = a.w\<close> back.\<close>

lemma pow_w_unchanged: "qw (pow a exponent) = qw a"
  by (simp add: pow_def safeAcos_def mkQuaternion_def Let_def)

text \<open>
  C4, at the unit quaternion \<open>a = (0, 1, 0, 0)\<close> (a half turn about x) and exponent 2:
  \<open>alpha = \<pi>/2\<close>, \<open>newAlpha = \<pi>\<close>, and \<open>pow\<close> returns the zero quaternion, with
  \<open>w = cos alpha = 0\<close> where \<open>cos newAlpha\<close> is -1; the rotation angle read from the
  result is \<open>\<pi>\<close>, the one of \<open>a\<close>, and not twice as much.
\<close>

theorem pow_keeps_w:
  "getNorm (mkQuaternion 0 1 0 0) = 1 \<and>
   pow (mkQuaternion 0 1 0 0) 2 = mkQuaternion 0 0 0 0 \<and>
   cos (safeAcos (qw (mkQuaternion 0 1 0 0)) * 2) = - 1 \<and>
   getRotationAngle (mkQuaternion 0 1 0 0) = pi \<and>
   getRotationAngle (pow (mkQuaternion 0 1 0 0) 2) = pi"
  by (simp add: pow_def safeAcos_def getRotationAngle_def getNorm_def mkQuaternion_def Let_def)

lemma Vector3_getNorm_half: "Vector3_getNorm \<lparr>vx = 1 / 2, vy = 0, vz = 0\<rparr> = 1 / 2"
  by (simp add: Vector3_getNorm_def real_sqrt_divide)

text \<open>
  \<open>setToRotateAboutAxis\<close> throws exactly when the norm of the axis is at least 1.01: the
  test has no absolute value.
\<close>

lemma setToRotateAboutAxis_throws_iff:
  "isl (setToRotateAboutAxis this axis theta) \<longleftrightarrow> Vector3_getNorm axis \<ge> 1.01"
  by (auto simp add: setToRotateAboutAxis_def)

text \<open>
  C8, at the axis \<open>(1/2, 0, 0)\<close> and \<open>theta = \<pi>\<close>: the norm is 1/2, half a unit away
  from 1, and \<open>setToRotateAboutAxis\<close> does not throw; it sets the quaternion to
  \<open>(0, 1/2, 0, 0)\<close>.
\<close>

theorem setToRotateAboutAxis_accepts_short_axis:
  "\<bar>Vector3_getNorm \<lparr>vx = 1 / 2, vy = 0, vz = 0\<rparr> - 1\<bar> > 0.01 \<and>
   setToRotateAboutAxis QuaternionIdentity \<lparr>vx = 1 / 2, vy = 0, vz = 0\<rparr> pi
     = Inr (mkQuaternion 0 (1 / 2) 0 0)"
  by (simp add: Vector3_getNorm_half setToRotateAboutAxis_def QuaternionIdentity_def
      mkQuaternion_def)

end
